theory Spec2Isabelle
  imports Main
begin

section \<open>Native (non-circuit) values handed to the conversion functions\<close>

text \<open>
  The conversion functions of \<^verbatim>\<open>std/commitments/kzg/verifier.go\<close> take their native
  arguments as Go \<^verbatim>\<open>any\<close> and inspect the dynamic type. A field element is
  represented by the integer it denotes; curve points by their affine coordinates.
\<close>

type_synonym Element = nat

record G1Affine =
  X :: Element
  Y :: Element

record E2 =
  A0 :: Element
  A1 :: Element

record G2Affine =
  X2 :: E2
  Y2 :: E2

text \<open>\<^verbatim>\<open>kzg.OpeningProof\<close> of gnark-crypto: the quotient commitment \<^verbatim>\<open>H\<close> and the claimed value.\<close>

record kzg_OpeningProof =
  H :: G1Affine
  ClaimedValue :: Element

text \<open>\<^verbatim>\<open>kzg.SRS\<close> of gnark-crypto; \<^verbatim>\<open>Vk.G2\<close> is the array \<^verbatim>\<open>[2]G2Affine\<close>.\<close>

record kzg_VerifyingKey =
  G2_0 :: G2Affine
  G2_1 :: G2Affine
  G1 :: G1Affine

record kzg_SRS =
  Pk_G1 :: "G1Affine list"
  Vk :: kzg_VerifyingKey

text \<open>
  A value of type \<^verbatim>\<open>any\<close>: the constructor is the dynamic type. The two SRS
  constructors are the pointer types \<^verbatim>\<open>*kzg_bn254.SRS\<close> and \<^verbatim>\<open>*kzg_bls12377.SRS\<close>;
  \<open>None\<close> is the nil pointer of that type. \<open>any_nil\<close> is the nil interface and
  \<open>any_other n\<close> a value of some other dynamic type, numbered \<open>n\<close>.
\<close>

datatype any =
    any_nil
  | bn254_G1Affine G1Affine
  | bls12377_G1Affine G1Affine
  | fr_bn254_Element Element
  | fr_bls12377_Element Element
  | kzg_bn254_OpeningProof kzg_OpeningProof
  | kzg_bls12377_OpeningProof kzg_OpeningProof
  | kzg_bn254_SRS_ptr "kzg_SRS option"
  | kzg_bls12377_SRS_ptr "kzg_SRS option"
  | any_other nat

text \<open>The dynamic type, as \<^verbatim>\<open>%T\<close> prints it in the error message.\<close>

datatype dyn_type =
    T_nil
  | T_bn254_G1Affine
  | T_bls12377_G1Affine
  | T_fr_bn254_Element
  | T_fr_bls12377_Element
  | T_kzg_bn254_OpeningProof
  | T_kzg_bls12377_OpeningProof
  | T_kzg_bn254_SRS_ptr
  | T_kzg_bls12377_SRS_ptr
  | T_other nat

fun type_of :: "any \<Rightarrow> dyn_type" where
  "type_of any_nil = T_nil"
| "type_of (bn254_G1Affine _) = T_bn254_G1Affine"
| "type_of (bls12377_G1Affine _) = T_bls12377_G1Affine"
| "type_of (fr_bn254_Element _) = T_fr_bn254_Element"
| "type_of (fr_bls12377_Element _) = T_fr_bls12377_Element"
| "type_of (kzg_bn254_OpeningProof _) = T_kzg_bn254_OpeningProof"
| "type_of (kzg_bls12377_OpeningProof _) = T_kzg_bls12377_OpeningProof"
| "type_of (kzg_bn254_SRS_ptr _) = T_kzg_bn254_SRS_ptr"
| "type_of (kzg_bls12377_SRS_ptr _) = T_kzg_bls12377_SRS_ptr"
| "type_of (any_other n) = T_other n"

section \<open>Witness types\<close>

text \<open>
  An emulated (nonnative) field element is a list of limbs; its zero value has no limbs.
  A \<^verbatim>\<open>frontend.Variable\<close> is an interface value: nil, a string, or a native field
  element.
\<close>

type_synonym emulated_Element = "nat list"

datatype Variable = Variable_nil | Variable_string string | Variable_element Element

record sw_bn254_G1 =
  eX :: emulated_Element
  eY :: emulated_Element

record sw_bls12377_G1 =
  vX :: Variable
  vY :: Variable

record sw_bn254_E2 =
  eA0 :: emulated_Element
  eA1 :: emulated_Element

record sw_bn254_G2 =
  eX2 :: sw_bn254_E2
  eY2 :: sw_bn254_E2

record sw_bls12377_E2 =
  vA0 :: Variable
  vA1 :: Variable

record sw_bls12377_G2 =
  vX2 :: sw_bls12377_E2
  vY2 :: sw_bls12377_E2

text \<open>
  The type parameters. \<^verbatim>\<open>algebra.ScalarT\<close>, \<^verbatim>\<open>algebra.G1ElementT\<close> and
  \<^verbatim>\<open>algebra.G2ElementT\<close> do not restrict the instantiation to the two families, so each
  has a third case: some other type, numbered.
\<close>

datatype ScalarT = sw_bn254_Scalar | sw_bls12377_Scalar | other_ScalarT nat
datatype G1ElementT = sw_bn254_G1Affine | sw_bls12377_G1Affine | other_G1ElementT nat
datatype G2ElementT = sw_bn254_G2Affine | sw_bls12377_G2Affine | other_G2ElementT nat

text \<open>
  A value of the instantiated type parameter. \<open>S_other n\<close>, \<open>G1El_other n\<close> and
  \<open>G2El_other n\<close> are the zero value of the other type \<open>n\<close>, the only value of such a
  type these functions ever hold.
\<close>

datatype S = S_bn254 emulated_Element | S_bls12377 Variable | S_other nat
datatype G1El = G1El_bn254 sw_bn254_G1 | G1El_bls12377 sw_bls12377_G1 | G1El_other nat
datatype G2El = G2El_bn254 sw_bn254_G2 | G2El_bls12377 sw_bls12377_G2 | G2El_other nat

text \<open>The zero value that \<^verbatim>\<open>var ret\<close> holds, by type parameter.\<close>

fun zero_S :: "ScalarT \<Rightarrow> S" where
  "zero_S sw_bn254_Scalar = S_bn254 []"
| "zero_S sw_bls12377_Scalar = S_bls12377 Variable_nil"
| "zero_S (other_ScalarT n) = S_other n"

fun zero_G1El :: "G1ElementT \<Rightarrow> G1El" where
  "zero_G1El sw_bn254_G1Affine = G1El_bn254 \<lparr>eX = [], eY = []\<rparr>"
| "zero_G1El sw_bls12377_G1Affine = G1El_bls12377 \<lparr>vX = Variable_nil, vY = Variable_nil\<rparr>"
| "zero_G1El (other_G1ElementT n) = G1El_other n"

fun zero_G2El :: "G2ElementT \<Rightarrow> G2El" where
  "zero_G2El sw_bn254_G2Affine =
     G2El_bn254 \<lparr>eX2 = \<lparr>eA0 = [], eA1 = []\<rparr>, eY2 = \<lparr>eA0 = [], eA1 = []\<rparr>\<rparr>"
| "zero_G2El sw_bls12377_G2Affine =
     G2El_bls12377 \<lparr>vX2 = \<lparr>vA0 = Variable_nil, vA1 = Variable_nil\<rparr>,
                    vY2 = \<lparr>vA0 = Variable_nil, vA1 = Variable_nil\<rparr>\<rparr>"
| "zero_G2El (other_G2ElementT n) = G2El_other n"

record 'g1 Commitment =
  G1El :: 'g1

record ('s, 'g1) OpeningProof =
  QuotientPoly :: 'g1
  ClaimedValueW :: 's
  Point :: 's

text \<open>\<^verbatim>\<open>SRS [2]G2El\<close>: the two array cells.\<close>

record 'g2 SRS =
  SRS_0 :: 'g2
  SRS_1 :: 'g2

section \<open>The witness constructors of the curve packages\<close>

text \<open>
  \<^verbatim>\<open>sw_bn254.NewG1Affine\<close>, \<^verbatim>\<open>sw_bn254.NewScalar\<close>, \<^verbatim>\<open>sw_bn254.NewG2Affine\<close>,
  \<^verbatim>\<open>sw_bls12377.NewG1Affine\<close>, \<^verbatim>\<open>sw_bls12377.NewG2Affine\<close> and the \<^verbatim>\<open>String\<close> method
  of \<^verbatim>\<open>fr_bls12377.Element\<close> are imported; the conversion functions take them as a
  parameter.
\<close>

record encoders =
  sw_bn254_NewG1Affine :: "G1Affine \<Rightarrow> sw_bn254_G1"
  sw_bn254_NewScalar :: "Element \<Rightarrow> emulated_Element"
  sw_bn254_NewG2Affine :: "G2Affine \<Rightarrow> sw_bn254_G2"
  sw_bls12377_NewG1Affine :: "G1Affine \<Rightarrow> sw_bls12377_G1"
  sw_bls12377_NewG2Affine :: "G2Affine \<Rightarrow> sw_bls12377_G2"
  fr_bls12377_String :: "Element \<Rightarrow> string"

section \<open>Conversion functions\<close>

text \<open>
  The two error values the conversion functions build with \<^verbatim>\<open>fmt.Errorf\<close>:
  \<^verbatim>\<open>"mismatching types %T %T"\<close>, carrying the dynamic type of the offending native value,
  and \<^verbatim>\<open>"unknown type parametrization"\<close>.
\<close>

datatype conv_error = mismatching_types dyn_type | unknown_type_parametrization

text \<open>A Go result pair \<^verbatim>\<open>(ret, err)\<close>; \<open>None\<close> is the nil error.\<close>

type_synonym 'a result = "'a \<times> conv_error option"

definition ValueOfCommitment :: "encoders \<Rightarrow> G1ElementT \<Rightarrow> any \<Rightarrow> G1El Commitment result" where
  "ValueOfCommitment enc tG1 cmt =
     (let ret = \<lparr>G1El = zero_G1El tG1\<rparr> in
      case tG1 of
        sw_bn254_G1Affine \<Rightarrow>
          (case cmt of
             bn254_G1Affine tCmt \<Rightarrow>
               (ret\<lparr>G1El := G1El_bn254 (sw_bn254_NewG1Affine enc tCmt)\<rparr>, None)
           | _ \<Rightarrow> (ret, Some (mismatching_types (type_of cmt))))
      | sw_bls12377_G1Affine \<Rightarrow>
          (case cmt of
             bls12377_G1Affine tCmt \<Rightarrow>
               (ret\<lparr>G1El := G1El_bls12377 (sw_bls12377_NewG1Affine enc tCmt)\<rparr>, None)
           | _ \<Rightarrow> (ret, Some (mismatching_types (type_of cmt))))
      | other_G1ElementT n \<Rightarrow> (ret, Some unknown_type_parametrization))"

definition ValueOfOpeningProof ::
  "encoders \<Rightarrow> ScalarT \<Rightarrow> G1ElementT \<Rightarrow> any \<Rightarrow> any \<Rightarrow> (S, G1El) OpeningProof result" where
  "ValueOfOpeningProof enc tS tG1 point proof_v =
     (let ret = \<lparr>QuotientPoly = zero_G1El tG1, ClaimedValueW = zero_S tS, Point = zero_S tS\<rparr> in
      case (tS, tG1) of
        (sw_bn254_Scalar, sw_bn254_G1Affine) \<Rightarrow>
          (case proof_v of
             kzg_bn254_OpeningProof tProof \<Rightarrow>
               (case point of
                  fr_bn254_Element tPoint \<Rightarrow>
                    (ret\<lparr>QuotientPoly := G1El_bn254 (sw_bn254_NewG1Affine enc (H tProof)),
                         ClaimedValueW := S_bn254 (sw_bn254_NewScalar enc (ClaimedValue tProof)),
                         Point := S_bn254 (sw_bn254_NewScalar enc tPoint)\<rparr>, None)
                | _ \<Rightarrow> (ret, Some (mismatching_types (type_of point))))
           | _ \<Rightarrow> (ret, Some (mismatching_types (type_of proof_v))))
      | (sw_bls12377_Scalar, sw_bls12377_G1Affine) \<Rightarrow>
          (case proof_v of
             kzg_bls12377_OpeningProof tProof \<Rightarrow>
               (case point of
                  fr_bls12377_Element tPoint \<Rightarrow>
                    (ret\<lparr>QuotientPoly := G1El_bls12377 (sw_bls12377_NewG1Affine enc (H tProof)),
                         ClaimedValueW :=
                           S_bls12377 (Variable_string (fr_bls12377_String enc (ClaimedValue tProof))),
                         Point := S_bls12377 (Variable_string (fr_bls12377_String enc tPoint))\<rparr>,
                     None)
                | _ \<Rightarrow> (ret, Some (mismatching_types (type_of point))))
           | _ \<Rightarrow> (ret, Some (mismatching_types (type_of proof_v))))
      | _ \<Rightarrow> (ret, Some unknown_type_parametrization))"

text \<open>
  \<^verbatim>\<open>ValueOfSRS\<close> dereferences the pointer after the type assertion; on a nil pointer of
  the right type that is a run-time panic, the outcome \<open>Panic\<close>.
\<close>

datatype 'a outcome = Panic | Returned 'a

definition ValueOfSRS :: "encoders \<Rightarrow> G2ElementT \<Rightarrow> any \<Rightarrow> G2El SRS result outcome" where
  "ValueOfSRS enc tG2 srs =
     (let ret = \<lparr>SRS_0 = zero_G2El tG2, SRS_1 = zero_G2El tG2\<rparr> in
      case tG2 of
        sw_bn254_G2Affine \<Rightarrow>
          (case srs of
             kzg_bn254_SRS_ptr p \<Rightarrow>
               (case p of
                  None \<Rightarrow> Panic
                | Some tSrs \<Rightarrow>
                    Returned
                      (ret\<lparr>SRS_0 := G2El_bn254 (sw_bn254_NewG2Affine enc (G2_0 (Vk tSrs))),
                           SRS_1 := G2El_bn254 (sw_bn254_NewG2Affine enc (G2_1 (Vk tSrs)))\<rparr>,
                       None))
           | _ \<Rightarrow> Returned (ret, Some (mismatching_types (type_of srs))))
      | sw_bls12377_G2Affine \<Rightarrow>
          (case srs of
             kzg_bls12377_SRS_ptr p \<Rightarrow>
               (case p of
                  None \<Rightarrow> Panic
                | Some tSrs \<Rightarrow>
                    Returned
                      (ret\<lparr>SRS_0 := G2El_bls12377 (sw_bls12377_NewG2Affine enc (G2_0 (Vk tSrs))),
                           SRS_1 := G2El_bls12377 (sw_bls12377_NewG2Affine enc (G2_1 (Vk tSrs)))\<rparr>,
                       None))
           | _ \<Rightarrow> Returned (ret, Some (mismatching_types (type_of srs))))
      | other_G2ElementT n \<Rightarrow> Returned (ret, Some unknown_type_parametrization))"

section \<open>Conversions as calls on the caller's memory\<close>

text \<open>
  The conversion functions share memory with their caller through one kind of argument
  only: a non-nil \<^verbatim>\<open>*kzg.SRS\<close> points to an SRS object that the caller holds too. The
  heap maps an address to the SRS object stored there. An argument is either a value
  that carries no address (\<open>Value\<close>, the nil pointers included) or a non-nil pointer to
  the SRS object at an address; \<open>load\<close> is the argument as the type switch and the type
  assertion see it, with the object the pointer refers to.
\<close>

type_synonym heap = "nat \<Rightarrow> kzg_SRS"

datatype ref_any = Value any | kzg_bn254_SRS_at nat | kzg_bls12377_SRS_at nat

fun load :: "heap \<Rightarrow> ref_any \<Rightarrow> any" where
  "load h (Value v) = v"
| "load h (kzg_bn254_SRS_at a) = kzg_bn254_SRS_ptr (Some (h a))"
| "load h (kzg_bls12377_SRS_at a) = kzg_bls12377_SRS_ptr (Some (h a))"

text \<open>
  The three functions again, statement by statement, as calls that receive the heap and
  hand it back: the type switch, the type assertions, the reads through \<^verbatim>\<open>tSrs\<close> and the
  assignments to the local \<^verbatim>\<open>ret\<close> through \<^verbatim>\<open>s\<close>.
\<close>

definition ValueOfCommitment_heap ::
  "encoders \<Rightarrow> G1ElementT \<Rightarrow> ref_any \<Rightarrow> heap \<Rightarrow> G1El Commitment result \<times> heap" where
  "ValueOfCommitment_heap enc tG1 cmt h =
     (let ret = \<lparr>G1El = zero_G1El tG1\<rparr> in
      case tG1 of
        sw_bn254_G1Affine \<Rightarrow>
          (case load h cmt of
             bn254_G1Affine tCmt \<Rightarrow>
               ((ret\<lparr>G1El := G1El_bn254 (sw_bn254_NewG1Affine enc tCmt)\<rparr>, None), h)
           | _ \<Rightarrow> ((ret, Some (mismatching_types (type_of (load h cmt)))), h))
      | sw_bls12377_G1Affine \<Rightarrow>
          (case load h cmt of
             bls12377_G1Affine tCmt \<Rightarrow>
               ((ret\<lparr>G1El := G1El_bls12377 (sw_bls12377_NewG1Affine enc tCmt)\<rparr>, None), h)
           | _ \<Rightarrow> ((ret, Some (mismatching_types (type_of (load h cmt)))), h))
      | other_G1ElementT n \<Rightarrow> ((ret, Some unknown_type_parametrization), h))"

definition ValueOfOpeningProof_heap ::
  "encoders \<Rightarrow> ScalarT \<Rightarrow> G1ElementT \<Rightarrow> ref_any \<Rightarrow> ref_any \<Rightarrow> heap \<Rightarrow>
   (S, G1El) OpeningProof result \<times> heap" where
  "ValueOfOpeningProof_heap enc tS tG1 point proof_v h =
     (let ret = \<lparr>QuotientPoly = zero_G1El tG1, ClaimedValueW = zero_S tS, Point = zero_S tS\<rparr> in
      case (tS, tG1) of
        (sw_bn254_Scalar, sw_bn254_G1Affine) \<Rightarrow>
          (case load h proof_v of
             kzg_bn254_OpeningProof tProof \<Rightarrow>
               (case load h point of
                  fr_bn254_Element tPoint \<Rightarrow>
                    ((ret\<lparr>QuotientPoly := G1El_bn254 (sw_bn254_NewG1Affine enc (H tProof)),
                          ClaimedValueW := S_bn254 (sw_bn254_NewScalar enc (ClaimedValue tProof)),
                          Point := S_bn254 (sw_bn254_NewScalar enc tPoint)\<rparr>, None), h)
                | _ \<Rightarrow> ((ret, Some (mismatching_types (type_of (load h point)))), h))
           | _ \<Rightarrow> ((ret, Some (mismatching_types (type_of (load h proof_v)))), h))
      | (sw_bls12377_Scalar, sw_bls12377_G1Affine) \<Rightarrow>
          (case load h proof_v of
             kzg_bls12377_OpeningProof tProof \<Rightarrow>
               (case load h point of
                  fr_bls12377_Element tPoint \<Rightarrow>
                    ((ret\<lparr>QuotientPoly := G1El_bls12377 (sw_bls12377_NewG1Affine enc (H tProof)),
                          ClaimedValueW :=
                            S_bls12377 (Variable_string (fr_bls12377_String enc (ClaimedValue tProof))),
                          Point := S_bls12377 (Variable_string (fr_bls12377_String enc tPoint))\<rparr>,
                      None), h)
                | _ \<Rightarrow> ((ret, Some (mismatching_types (type_of (load h point)))), h))
           | _ \<Rightarrow> ((ret, Some (mismatching_types (type_of (load h proof_v)))), h))
      | _ \<Rightarrow> ((ret, Some unknown_type_parametrization), h))"

definition ValueOfSRS_heap ::
  "encoders \<Rightarrow> G2ElementT \<Rightarrow> ref_any \<Rightarrow> heap \<Rightarrow> G2El SRS result outcome \<times> heap" where
  "ValueOfSRS_heap enc tG2 srs h =
     (let ret = \<lparr>SRS_0 = zero_G2El tG2, SRS_1 = zero_G2El tG2\<rparr> in
      case tG2 of
        sw_bn254_G2Affine \<Rightarrow>
          (case load h srs of
             kzg_bn254_SRS_ptr p \<Rightarrow>
               (case p of
                  None \<Rightarrow> (Panic, h)
                | Some tSrs \<Rightarrow>
                    (Returned
                       (ret\<lparr>SRS_0 := G2El_bn254 (sw_bn254_NewG2Affine enc (G2_0 (Vk tSrs))),
                            SRS_1 := G2El_bn254 (sw_bn254_NewG2Affine enc (G2_1 (Vk tSrs)))\<rparr>,
                        None), h))
           | _ \<Rightarrow> (Returned (ret, Some (mismatching_types (type_of (load h srs)))), h))
      | sw_bls12377_G2Affine \<Rightarrow>
          (case load h srs of
             kzg_bls12377_SRS_ptr p \<Rightarrow>
               (case p of
                  None \<Rightarrow> (Panic, h)
                | Some tSrs \<Rightarrow>
                    (Returned
                       (ret\<lparr>SRS_0 := G2El_bls12377 (sw_bls12377_NewG2Affine enc (G2_0 (Vk tSrs))),
                            SRS_1 := G2El_bls12377 (sw_bls12377_NewG2Affine enc (G2_1 (Vk tSrs)))\<rparr>,
                        None), h))
           | _ \<Rightarrow> (Returned (ret, Some (mismatching_types (type_of (load h srs)))), h))
      | other_G2ElementT n \<Rightarrow> (Returned (ret, Some unknown_type_parametrization), h))"

text \<open>
  One conversion call with its type parameters and arguments, its result, and a sequence
  of calls, each running on the heap the previous one left.
\<close>

datatype conv_call =
    Call_ValueOfCommitment G1ElementT ref_any
  | Call_ValueOfOpeningProof ScalarT G1ElementT ref_any ref_any
  | Call_ValueOfSRS G2ElementT ref_any

datatype conv_result =
    Commitment_result "G1El Commitment result"
  | OpeningProof_result "(S, G1El) OpeningProof result"
  | SRS_result "G2El SRS result outcome"

fun convert :: "encoders \<Rightarrow> conv_call \<Rightarrow> heap \<Rightarrow> conv_result \<times> heap" where
  "convert enc (Call_ValueOfCommitment tG1 cmt) h =
     (case ValueOfCommitment_heap enc tG1 cmt h of (r, h') \<Rightarrow> (Commitment_result r, h'))"
| "convert enc (Call_ValueOfOpeningProof tS tG1 point proof_v) h =
     (case ValueOfOpeningProof_heap enc tS tG1 point proof_v h of
        (r, h') \<Rightarrow> (OpeningProof_result r, h'))"
| "convert enc (Call_ValueOfSRS tG2 srs) h =
     (case ValueOfSRS_heap enc tG2 srs h of (r, h') \<Rightarrow> (SRS_result r, h'))"

fun convert_all :: "encoders \<Rightarrow> conv_call list \<Rightarrow> heap \<Rightarrow> heap" where
  "convert_all enc [] h = h"
| "convert_all enc (c # cs) h = convert_all enc cs (snd (convert enc c h))"

section \<open>The verifier\<close>

text \<open>
  Modelled from the spec: the interfaces \<^verbatim>\<open>algebra.Curve\<close> and \<^verbatim>\<open>algebra.Pairing\<close> are
  declared outside this file. Their methods are taken with the signatures the
  specification lists: \<^verbatim>\<open>ScalarMulBase(Scalar) -> G1Element\<close>,
  \<^verbatim>\<open>ScalarMul(G1Element, Scalar) -> G1Element\<close>, \<^verbatim>\<open>Add\<close>, \<^verbatim>\<open>Neg\<close>, and
  \<^verbatim>\<open>PairingCheck(sequence of G1Element, sequence of G2Element) -> success/failure\<close>,
  as functions of the values their pointer arguments refer to. \<open>None\<close> is the nil error.
\<close>

record ('s, 'g1) Curve =
  ScalarMulBase :: "'s \<Rightarrow> 'g1"
  ScalarMul :: "'g1 \<Rightarrow> 's \<Rightarrow> 'g1"
  Add :: "'g1 \<Rightarrow> 'g1 \<Rightarrow> 'g1"
  Neg :: "'g1 \<Rightarrow> 'g1"

record ('g1, 'g2, 'e) Pairing =
  PairingCheck :: "'g1 list \<Rightarrow> 'g2 list \<Rightarrow> 'e option"

record ('s, 'g1, 'g2, 'e) Verifier =
  SRS :: "'g2 SRS"
  curve :: "('s, 'g1) Curve"
  pairing :: "('g1, 'g2, 'e) Pairing"

definition NewVerifier ::
  "'g2 SRS \<Rightarrow> ('s, 'g1) Curve \<Rightarrow> ('g1, 'g2, 'e) Pairing \<Rightarrow> ('s, 'g1, 'g2, 'e) Verifier" where
  "NewVerifier srs c p = \<lparr>SRS = srs, curve = c, pairing = p\<rparr>"

text \<open>One invocation of a capability method, with its arguments.\<close>

datatype ('s, 'g1, 'g2) call =
    Call_ScalarMulBase 's
  | Call_ScalarMul 'g1 's
  | Call_Add 'g1 'g1
  | Call_Neg 'g1
  | Call_PairingCheck "'g1 list" "'g2 list"

text \<open>
  What a call of \<^verbatim>\<open>AssertProof\<close> can see and touch: the verifier its receiver points to,
  its two arguments, and the capability invocations made so far (the only channel
  through which constraints are emitted).
\<close>

record ('s, 'g1, 'g2, 'e) frame =
  vk :: "('s, 'g1, 'g2, 'e) Verifier"
  commitment :: "'g1 Commitment"
  proof_arg :: "('s, 'g1) OpeningProof"
  emitted :: "('s, 'g1, 'g2) call list"

definition emit ::
  "('s, 'g1, 'g2) call \<Rightarrow> ('s, 'g1, 'g2, 'e) frame \<Rightarrow> ('s, 'g1, 'g2, 'e) frame" where
  "emit c fr = fr\<lparr>emitted := emitted fr @ [c]\<rparr>"

definition curve_ScalarMulBase ::
  "('s, 'g1, 'g2, 'e) frame \<Rightarrow> 's \<Rightarrow> 'g1 \<times> ('s, 'g1, 'g2, 'e) frame" where
  "curve_ScalarMulBase fr s = (ScalarMulBase (curve (vk fr)) s, emit (Call_ScalarMulBase s) fr)"

definition curve_ScalarMul ::
  "('s, 'g1, 'g2, 'e) frame \<Rightarrow> 'g1 \<Rightarrow> 's \<Rightarrow> 'g1 \<times> ('s, 'g1, 'g2, 'e) frame" where
  "curve_ScalarMul fr p s = (ScalarMul (curve (vk fr)) p s, emit (Call_ScalarMul p s) fr)"

definition curve_Add ::
  "('s, 'g1, 'g2, 'e) frame \<Rightarrow> 'g1 \<Rightarrow> 'g1 \<Rightarrow> 'g1 \<times> ('s, 'g1, 'g2, 'e) frame" where
  "curve_Add fr p q = (Add (curve (vk fr)) p q, emit (Call_Add p q) fr)"

definition curve_Neg ::
  "('s, 'g1, 'g2, 'e) frame \<Rightarrow> 'g1 \<Rightarrow> 'g1 \<times> ('s, 'g1, 'g2, 'e) frame" where
  "curve_Neg fr p = (Neg (curve (vk fr)) p, emit (Call_Neg p) fr)"

definition pairing_PairingCheck ::
  "('s, 'g1, 'g2, 'e) frame \<Rightarrow> 'g1 list \<Rightarrow> 'g2 list \<Rightarrow> 'e option \<times> ('s, 'g1, 'g2, 'e) frame" where
  "pairing_PairingCheck fr ps qs =
     (PairingCheck (pairing (vk fr)) ps qs, emit (Call_PairingCheck ps qs) fr)"

text \<open>The error \<^verbatim>\<open>fmt.Errorf("pairing check: %w", err)\<close>, wrapping the capability's error.\<close>

datatype 'e assert_error = pairing_check 'e

definition AssertProof ::
  "('s, 'g1, 'g2, 'e) frame \<Rightarrow> 'e assert_error option \<times> ('s, 'g1, 'g2, 'e) frame" where
  "AssertProof fr0 =
     (let (claimedValueG1, fr1) = curve_ScalarMulBase fr0 (ClaimedValueW (proof_arg fr0));
          (fminusfaG1, fr2) = curve_Neg fr1 claimedValueG1;
          (fminusfaG1, fr3) = curve_Add fr2 fminusfaG1 (G1El (commitment fr2));
          (negQuotientPoly, fr4) = curve_Neg fr3 (QuotientPoly (proof_arg fr3));
          (totalG1, fr5) = curve_ScalarMul fr4 (QuotientPoly (proof_arg fr4)) (Point (proof_arg fr4));
          (totalG1, fr6) = curve_Add fr5 totalG1 fminusfaG1;
          (err, fr7) = pairing_PairingCheck fr6 [totalG1, negQuotientPoly]
                         [SRS_0 (SRS (vk fr6)), SRS_1 (SRS (vk fr6))]
      in case err of
           Some e \<Rightarrow> (Some (pairing_check e), fr7)
         | None \<Rightarrow> (None, fr7))"

text \<open>
  A caller invoking \<^verbatim>\<open>AssertProof\<close> on the same verifier with given arguments, and a
  sequence of such invocations, each continuing from the state the previous one left.
\<close>

definition invoke ::
  "('s, 'g1, 'g2, 'e) frame \<Rightarrow> 'g1 Commitment \<Rightarrow> ('s, 'g1) OpeningProof \<Rightarrow>
   'e assert_error option \<times> ('s, 'g1, 'g2, 'e) frame" where
  "invoke fr c p = AssertProof (fr\<lparr>commitment := c, proof_arg := p\<rparr>)"

fun invoke_all ::
  "('s, 'g1, 'g2, 'e) frame \<Rightarrow> ('g1 Commitment \<times> ('s, 'g1) OpeningProof) list \<Rightarrow>
   ('s, 'g1, 'g2, 'e) frame" where
  "invoke_all fr [] = fr"
| "invoke_all fr ((c, p) # rest) = invoke_all (snd (invoke fr c p)) rest"

text \<open>The values the source computes on the way to the pairing check.\<close>

definition claimedValueG1_of :: "('s, 'g1, 'g2, 'e) frame \<Rightarrow> 'g1" where
  "claimedValueG1_of fr = ScalarMulBase (curve (vk fr)) (ClaimedValueW (proof_arg fr))"

definition fminusfaG1_of :: "('s, 'g1, 'g2, 'e) frame \<Rightarrow> 'g1" where
  "fminusfaG1_of fr =
     Add (curve (vk fr)) (Neg (curve (vk fr)) (claimedValueG1_of fr)) (G1El (commitment fr))"

definition negQuotientPoly_of :: "('s, 'g1, 'g2, 'e) frame \<Rightarrow> 'g1" where
  "negQuotientPoly_of fr = Neg (curve (vk fr)) (QuotientPoly (proof_arg fr))"

definition totalG1_of :: "('s, 'g1, 'g2, 'e) frame \<Rightarrow> 'g1" where
  "totalG1_of fr =
     Add (curve (vk fr))
       (ScalarMul (curve (vk fr)) (QuotientPoly (proof_arg fr)) (Point (proof_arg fr)))
       (fminusfaG1_of fr)"

text \<open>The answer of the pairing capability on the two pairs \<^verbatim>\<open>AssertProof\<close> hands it.\<close>

definition pairing_outcome :: "('s, 'g1, 'g2, 'e) frame \<Rightarrow> 'e option" where
  "pairing_outcome fr =
     PairingCheck (pairing (vk fr)) [totalG1_of fr, negQuotientPoly_of fr]
       [SRS_0 (SRS (vk fr)), SRS_1 (SRS (vk fr))]"

section \<open>Sample instantiations\<close>

text \<open>
  Concrete capabilities and encoders on which the functions above can be evaluated.
  The sample curve is the additive group of the integers with generator 1, a pairing of
  \<open>p\<close> and \<open>q\<close> is their product, and the pairing check asks for the sum of the products
  to be zero. \<open>toy_frame alpha c h v a\<close> is a verifier for the secret \<open>alpha\<close> called on
  the commitment \<open>c\<close> and the proof \<open>(h, v, a)\<close>.
\<close>

definition toy_curve :: "(int, int) Curve" where
  "toy_curve = \<lparr>ScalarMulBase = (\<lambda>s. s), ScalarMul = (\<lambda>p s. s * p), Add = (+), Neg = uminus\<rparr>"

definition toy_pairing :: "(int, int, string) Pairing" where
  "toy_pairing =
     \<lparr>PairingCheck = (\<lambda>ps qs.
        if length ps \<noteq> length qs then Some ''length mismatch''
        else if sum_list (map2 (*) ps qs) = 0 then None
        else Some ''pairing mismatch'')\<rparr>"

definition toy_frame :: "int \<Rightarrow> int \<Rightarrow> int \<Rightarrow> int \<Rightarrow> int \<Rightarrow> (int, int, int, string) frame" where
  "toy_frame alpha c h v a =
     \<lparr>vk = NewVerifier \<lparr>SRS_0 = 1, SRS_1 = alpha\<rparr> toy_curve toy_pairing,
      commitment = \<lparr>G1El = c\<rparr>,
      proof_arg = \<lparr>QuotientPoly = h, ClaimedValueW = v, Point = a\<rparr>,
      emitted = []\<rparr>"

text \<open>
  Sample encoders: an emulated element as four 64-bit limbs, a native element as itself,
  and \<^verbatim>\<open>String()\<close> as the decimal numeral of the element, except that the 65535
  elements just below the modulus of the bls12-377 scalar field are printed as the
  negative numerals \<^verbatim>\<open>-1\<close> to \<^verbatim>\<open>-65535\<close>.
\<close>

definition digit_char :: "nat \<Rightarrow> char" where
  "digit_char d = ''0123456789'' ! d"

function decimal :: "nat \<Rightarrow> string" where
  "decimal n =
     (if n < 10 then [digit_char n] else decimal (n div 10) @ [digit_char (n mod 10)])"
  by pat_completeness auto
termination
  by (relation "measure id") auto

declare decimal.simps [simp del]

definition fr_bls12377_modulus :: nat where
  "fr_bls12377_modulus =
     8444461749428370424248824938781546531375899335154063827935233455917409239041"

definition sample_String :: "Element \<Rightarrow> string" where
  "sample_String z =
     (if 0 < z \<and> z < fr_bls12377_modulus \<and> fr_bls12377_modulus - z \<le> 65535
      then CHR ''-'' # decimal (fr_bls12377_modulus - z)
      else decimal z)"

definition limbs4 :: "nat \<Rightarrow> nat list" where
  "limbs4 n = map (\<lambda>i. (n div 2 ^ (64 * i)) mod 2 ^ 64) [0, 1, 2, 3]"

definition sample_encoders :: encoders where
  "sample_encoders =
     \<lparr>sw_bn254_NewG1Affine = (\<lambda>p. \<lparr>eX = limbs4 (X p), eY = limbs4 (Y p)\<rparr>),
      sw_bn254_NewScalar = limbs4,
      sw_bn254_NewG2Affine =
        (\<lambda>q. \<lparr>eX2 = \<lparr>eA0 = limbs4 (A0 (X2 q)), eA1 = limbs4 (A1 (X2 q))\<rparr>,
              eY2 = \<lparr>eA0 = limbs4 (A0 (Y2 q)), eA1 = limbs4 (A1 (Y2 q))\<rparr>\<rparr>),
      sw_bls12377_NewG1Affine =
        (\<lambda>p. \<lparr>vX = Variable_element (X p), vY = Variable_element (Y p)\<rparr>),
      sw_bls12377_NewG2Affine =
        (\<lambda>q. \<lparr>vX2 = \<lparr>vA0 = Variable_element (A0 (X2 q)), vA1 = Variable_element (A1 (X2 q))\<rparr>,
              vY2 = \<lparr>vA0 = Variable_element (A0 (Y2 q)), vA1 = Variable_element (A1 (Y2 q))\<rparr>\<rparr>),
      fr_bls12377_String = sample_String\<rparr>"

definition sample_proof :: kzg_OpeningProof where
  "sample_proof = \<lparr>H = \<lparr>X = 3, Y = 4\<rparr>, ClaimedValue = 5\<rparr>"

definition sample_srs :: kzg_SRS where
  "sample_srs =
     \<lparr>Pk_G1 = [\<lparr>X = 1, Y = 2\<rparr>],
      Vk = \<lparr>G2_0 = \<lparr>X2 = \<lparr>A0 = 10, A1 = 11\<rparr>, Y2 = \<lparr>A0 = 12, A1 = 13\<rparr>\<rparr>,
            G2_1 = \<lparr>X2 = \<lparr>A0 = 20, A1 = 21\<rparr>, Y2 = \<lparr>A0 = 22, A1 = 23\<rparr>\<rparr>,
            G1 = \<lparr>X = 1, Y = 2\<rparr>\<rparr>\<rparr>"

section \<open>Auxiliary facts about the conversion functions\<close>

lemma decimal_57: "decimal 57 = ''57''"
  by code_simp

lemma sample_String_small: "z + 65535 < fr_bls12377_modulus \<Longrightarrow> sample_String z = decimal z"
proof -
  assume "z + 65535 < fr_bls12377_modulus"
  then have "\<not> fr_bls12377_modulus - z \<le> 65535"
    by linarith
  then show ?thesis
    by (simp add: sample_String_def)
qed

lemma sample_String_minus_one: "sample_String (fr_bls12377_modulus - 1) = ''-1''"
proof -
  have "decimal 1 = ''1''"
    by code_simp
  then show ?thesis
    by (simp add: sample_String_def fr_bls12377_modulus_def)
qed

lemma limbs4_ex: "limbs4 (2 ^ 64 + 3) = [3, 1, 0, 0]"
  by (simp add: limbs4_def)

lemma ValueOfCommitment_other:
  "ValueOfCommitment enc (other_G1ElementT n) cmt =
     (\<lparr>G1El = G1El_other n\<rparr>, Some unknown_type_parametrization)"
  by (simp add: ValueOfCommitment_def)

lemma ValueOfSRS_other:
  "ValueOfSRS enc (other_G2ElementT n) srs =
     Returned (\<lparr>SRS_0 = G2El_other n, SRS_1 = G2El_other n\<rparr>, Some unknown_type_parametrization)"
  by (simp add: ValueOfSRS_def)

lemma ValueOfOpeningProof_unsupported:
  "(tS, tG1) \<noteq> (sw_bn254_Scalar, sw_bn254_G1Affine) \<Longrightarrow>
   (tS, tG1) \<noteq> (sw_bls12377_Scalar, sw_bls12377_G1Affine) \<Longrightarrow>
   ValueOfOpeningProof enc tS tG1 point proof_v =
     (\<lparr>QuotientPoly = zero_G1El tG1, ClaimedValueW = zero_S tS, Point = zero_S tS\<rparr>,
      Some unknown_type_parametrization)"
  by (cases tS; cases tG1) (simp_all add: ValueOfOpeningProof_def)

lemma ValueOfCommitment_bn254_mismatch:
  "type_of cmt \<noteq> T_bn254_G1Affine \<Longrightarrow>
   ValueOfCommitment enc sw_bn254_G1Affine cmt =
     (\<lparr>G1El = zero_G1El sw_bn254_G1Affine\<rparr>, Some (mismatching_types (type_of cmt)))"
  by (cases cmt) (simp_all add: ValueOfCommitment_def)

lemma ValueOfCommitment_bls12377_mismatch:
  "type_of cmt \<noteq> T_bls12377_G1Affine \<Longrightarrow>
   ValueOfCommitment enc sw_bls12377_G1Affine cmt =
     (\<lparr>G1El = zero_G1El sw_bls12377_G1Affine\<rparr>, Some (mismatching_types (type_of cmt)))"
  by (cases cmt) (simp_all add: ValueOfCommitment_def)

lemma ValueOfOpeningProof_bn254_proof_mismatch:
  "type_of proof_v \<noteq> T_kzg_bn254_OpeningProof \<Longrightarrow>
   ValueOfOpeningProof enc sw_bn254_Scalar sw_bn254_G1Affine point proof_v =
     (\<lparr>QuotientPoly = zero_G1El sw_bn254_G1Affine, ClaimedValueW = zero_S sw_bn254_Scalar,
       Point = zero_S sw_bn254_Scalar\<rparr>, Some (mismatching_types (type_of proof_v)))"
  by (cases proof_v) (simp_all add: ValueOfOpeningProof_def)

lemma ValueOfOpeningProof_bn254_point_mismatch:
  "type_of proof_v = T_kzg_bn254_OpeningProof \<Longrightarrow> type_of point \<noteq> T_fr_bn254_Element \<Longrightarrow>
   ValueOfOpeningProof enc sw_bn254_Scalar sw_bn254_G1Affine point proof_v =
     (\<lparr>QuotientPoly = zero_G1El sw_bn254_G1Affine, ClaimedValueW = zero_S sw_bn254_Scalar,
       Point = zero_S sw_bn254_Scalar\<rparr>, Some (mismatching_types (type_of point)))"
  by (cases proof_v; cases point) (simp_all add: ValueOfOpeningProof_def)

lemma ValueOfOpeningProof_bls12377_proof_mismatch:
  "type_of proof_v \<noteq> T_kzg_bls12377_OpeningProof \<Longrightarrow>
   ValueOfOpeningProof enc sw_bls12377_Scalar sw_bls12377_G1Affine point proof_v =
     (\<lparr>QuotientPoly = zero_G1El sw_bls12377_G1Affine, ClaimedValueW = zero_S sw_bls12377_Scalar,
       Point = zero_S sw_bls12377_Scalar\<rparr>, Some (mismatching_types (type_of proof_v)))"
  by (cases proof_v) (simp_all add: ValueOfOpeningProof_def)

lemma ValueOfOpeningProof_bls12377_point_mismatch:
  "type_of proof_v = T_kzg_bls12377_OpeningProof \<Longrightarrow> type_of point \<noteq> T_fr_bls12377_Element \<Longrightarrow>
   ValueOfOpeningProof enc sw_bls12377_Scalar sw_bls12377_G1Affine point proof_v =
     (\<lparr>QuotientPoly = zero_G1El sw_bls12377_G1Affine, ClaimedValueW = zero_S sw_bls12377_Scalar,
       Point = zero_S sw_bls12377_Scalar\<rparr>, Some (mismatching_types (type_of point)))"
  by (cases proof_v; cases point) (simp_all add: ValueOfOpeningProof_def)

lemma ValueOfSRS_bn254_mismatch:
  "type_of srs \<noteq> T_kzg_bn254_SRS_ptr \<Longrightarrow>
   ValueOfSRS enc sw_bn254_G2Affine srs =
     Returned (\<lparr>SRS_0 = zero_G2El sw_bn254_G2Affine, SRS_1 = zero_G2El sw_bn254_G2Affine\<rparr>,
               Some (mismatching_types (type_of srs)))"
  by (cases srs) (simp_all add: ValueOfSRS_def)

lemma ValueOfSRS_bls12377_mismatch:
  "type_of srs \<noteq> T_kzg_bls12377_SRS_ptr \<Longrightarrow>
   ValueOfSRS enc sw_bls12377_G2Affine srs =
     Returned (\<lparr>SRS_0 = zero_G2El sw_bls12377_G2Affine, SRS_1 = zero_G2El sw_bls12377_G2Affine\<rparr>,
               Some (mismatching_types (type_of srs)))"
  by (cases srs) (simp_all add: ValueOfSRS_def)

lemma ValueOfCommitment_bn254_ok:
  "ValueOfCommitment enc sw_bn254_G1Affine (bn254_G1Affine tCmt) =
     (\<lparr>G1El = G1El_bn254 (sw_bn254_NewG1Affine enc tCmt)\<rparr>, None)"
  by (simp add: ValueOfCommitment_def)

lemma ValueOfCommitment_bls12377_ok:
  "ValueOfCommitment enc sw_bls12377_G1Affine (bls12377_G1Affine tCmt) =
     (\<lparr>G1El = G1El_bls12377 (sw_bls12377_NewG1Affine enc tCmt)\<rparr>, None)"
  by (simp add: ValueOfCommitment_def)

lemma ValueOfOpeningProof_bn254_ok:
  "ValueOfOpeningProof enc sw_bn254_Scalar sw_bn254_G1Affine
     (fr_bn254_Element tPoint) (kzg_bn254_OpeningProof tProof) =
     (\<lparr>QuotientPoly = G1El_bn254 (sw_bn254_NewG1Affine enc (H tProof)),
       ClaimedValueW = S_bn254 (sw_bn254_NewScalar enc (ClaimedValue tProof)),
       Point = S_bn254 (sw_bn254_NewScalar enc tPoint)\<rparr>, None)"
  by (simp add: ValueOfOpeningProof_def)

lemma ValueOfOpeningProof_bls12377_ok:
  "ValueOfOpeningProof enc sw_bls12377_Scalar sw_bls12377_G1Affine
     (fr_bls12377_Element tPoint) (kzg_bls12377_OpeningProof tProof) =
     (\<lparr>QuotientPoly = G1El_bls12377 (sw_bls12377_NewG1Affine enc (H tProof)),
       ClaimedValueW = S_bls12377 (Variable_string (fr_bls12377_String enc (ClaimedValue tProof))),
       Point = S_bls12377 (Variable_string (fr_bls12377_String enc tPoint))\<rparr>, None)"
  by (simp add: ValueOfOpeningProof_def)

lemma ValueOfSRS_bn254_ok:
  "ValueOfSRS enc sw_bn254_G2Affine (kzg_bn254_SRS_ptr (Some tSrs)) =
     Returned (\<lparr>SRS_0 = G2El_bn254 (sw_bn254_NewG2Affine enc (G2_0 (Vk tSrs))),
                SRS_1 = G2El_bn254 (sw_bn254_NewG2Affine enc (G2_1 (Vk tSrs)))\<rparr>, None)"
  by (simp add: ValueOfSRS_def)

lemma ValueOfSRS_bls12377_ok:
  "ValueOfSRS enc sw_bls12377_G2Affine (kzg_bls12377_SRS_ptr (Some tSrs)) =
     Returned (\<lparr>SRS_0 = G2El_bls12377 (sw_bls12377_NewG2Affine enc (G2_0 (Vk tSrs))),
                SRS_1 = G2El_bls12377 (sw_bls12377_NewG2Affine enc (G2_1 (Vk tSrs)))\<rparr>, None)"
  by (simp add: ValueOfSRS_def)

lemma ValueOfOpeningProof_success:
  assumes "snd (ValueOfOpeningProof enc tS tG1 point proof_v) = None"
  shows "(\<exists>tProof tPoint. tS = sw_bn254_Scalar \<and> tG1 = sw_bn254_G1Affine \<and>
            proof_v = kzg_bn254_OpeningProof tProof \<and> point = fr_bn254_Element tPoint) \<or>
         (\<exists>tProof tPoint. tS = sw_bls12377_Scalar \<and> tG1 = sw_bls12377_G1Affine \<and>
            proof_v = kzg_bls12377_OpeningProof tProof \<and> point = fr_bls12377_Element tPoint)"
  using assms
  by (cases tS; cases tG1; cases proof_v; cases point) (simp_all add: ValueOfOpeningProof_def)

lemma ValueOfSRS_success:
  assumes "ValueOfSRS enc tG2 srs = Returned (w, None)"
  shows "(\<exists>tSrs. tG2 = sw_bn254_G2Affine \<and> srs = kzg_bn254_SRS_ptr (Some tSrs)) \<or>
         (\<exists>tSrs. tG2 = sw_bls12377_G2Affine \<and> srs = kzg_bls12377_SRS_ptr (Some tSrs))"
  using assms
  by (cases tG2; cases srs) (auto simp add: ValueOfSRS_def split: option.splits)

lemma ValueOfCommitment_failure_zero:
  "snd (ValueOfCommitment enc tG1 cmt) \<noteq> None \<Longrightarrow>
   fst (ValueOfCommitment enc tG1 cmt) = \<lparr>G1El = zero_G1El tG1\<rparr>"
  by (cases tG1; cases cmt) (simp_all add: ValueOfCommitment_def)

lemma ValueOfOpeningProof_failure_zero:
  "snd (ValueOfOpeningProof enc tS tG1 point proof_v) \<noteq> None \<Longrightarrow>
   fst (ValueOfOpeningProof enc tS tG1 point proof_v) =
     \<lparr>QuotientPoly = zero_G1El tG1, ClaimedValueW = zero_S tS, Point = zero_S tS\<rparr>"
  by (cases tS; cases tG1; cases proof_v; cases point) (simp_all add: ValueOfOpeningProof_def)

lemma ValueOfSRS_failure_zero:
  "ValueOfSRS enc tG2 srs = Returned (w, Some e) \<Longrightarrow>
   w = \<lparr>SRS_0 = zero_G2El tG2, SRS_1 = zero_G2El tG2\<rparr>"
  by (cases tG2; cases srs) (auto simp add: ValueOfSRS_def split: option.splits)

lemma ValueOfCommitment_heap_eq:
  "ValueOfCommitment_heap enc tG1 cmt h = (ValueOfCommitment enc tG1 (load h cmt), h)"
  by (cases tG1; cases "load h cmt")
    (simp_all add: ValueOfCommitment_heap_def ValueOfCommitment_def)

lemma ValueOfOpeningProof_heap_eq:
  "ValueOfOpeningProof_heap enc tS tG1 point proof_v h =
     (ValueOfOpeningProof enc tS tG1 (load h point) (load h proof_v), h)"
  by (cases tS; cases tG1; cases "load h proof_v"; cases "load h point")
    (simp_all add: ValueOfOpeningProof_heap_def ValueOfOpeningProof_def)

lemma ValueOfSRS_heap_eq:
  "ValueOfSRS_heap enc tG2 srs h = (ValueOfSRS enc tG2 (load h srs), h)"
  by (cases tG2; cases "load h srs")
    (simp_all add: ValueOfSRS_heap_def ValueOfSRS_def split: option.split)

lemma convert_heap: "snd (convert enc c h) = h"
  by (cases c)
    (simp_all add: ValueOfCommitment_heap_eq ValueOfOpeningProof_heap_eq ValueOfSRS_heap_eq)

lemma convert_all_heap: "convert_all enc calls h = h"
  by (induction calls arbitrary: h) (simp_all add: convert_heap)

section \<open>Auxiliary facts about the verifier\<close>

lemma AssertProof_unfold:
  "AssertProof fr =
     (map_option pairing_check
        (PairingCheck (pairing (vk fr)) [totalG1_of fr, negQuotientPoly_of fr]
           [SRS_0 (SRS (vk fr)), SRS_1 (SRS (vk fr))]),
      fr\<lparr>emitted := emitted fr @
        [Call_ScalarMulBase (ClaimedValueW (proof_arg fr)),
         Call_Neg (claimedValueG1_of fr),
         Call_Add (Neg (curve (vk fr)) (claimedValueG1_of fr)) (G1El (commitment fr)),
         Call_Neg (QuotientPoly (proof_arg fr)),
         Call_ScalarMul (QuotientPoly (proof_arg fr)) (Point (proof_arg fr)),
         Call_Add (ScalarMul (curve (vk fr)) (QuotientPoly (proof_arg fr)) (Point (proof_arg fr)))
           (fminusfaG1_of fr),
         Call_PairingCheck [totalG1_of fr, negQuotientPoly_of fr]
           [SRS_0 (SRS (vk fr)), SRS_1 (SRS (vk fr))]]\<rparr>)"
  by (simp add: AssertProof_def curve_ScalarMulBase_def curve_ScalarMul_def curve_Add_def
      curve_Neg_def pairing_PairingCheck_def emit_def totalG1_of_def negQuotientPoly_of_def
      fminusfaG1_of_def claimedValueG1_of_def split: option.split)

lemma AssertProof_vk: "vk (snd (AssertProof fr)) = vk fr"
  by (simp add: AssertProof_unfold)

lemma invoke_vk: "vk (snd (invoke fr c p)) = vk fr"
  by (simp add: invoke_def AssertProof_vk)

lemma invoke_all_vk: "vk (invoke_all fr calls) = vk fr"
  by (induction fr calls rule: invoke_all.induct) (simp_all add: invoke_vk)

lemma invoke_fst_vk: "vk fr = vk fr' \<Longrightarrow> fst (invoke fr c p) = fst (invoke fr' c p)"
  by (simp add: invoke_def AssertProof_unfold totalG1_of_def negQuotientPoly_of_def
      fminusfaG1_of_def claimedValueG1_of_def)

lemma toy_honest: "fst (AssertProof (toy_frame 5 25 7 4 2)) = None"
  by (simp add: AssertProof_unfold toy_frame_def NewVerifier_def toy_curve_def toy_pairing_def
      totalG1_of_def negQuotientPoly_of_def fminusfaG1_of_def claimedValueG1_of_def)

lemma toy_tampered:
  "fst (AssertProof (toy_frame 5 25 7 5 2)) = Some (pairing_check ''pairing mismatch'')"
  by (simp add: AssertProof_unfold toy_frame_def NewVerifier_def toy_curve_def toy_pairing_def
      totalG1_of_def negQuotientPoly_of_def fminusfaG1_of_def claimedValueG1_of_def)

lemma toy_total:
  "totalG1_of (toy_frame alpha c h v a) = a * h + (c - v)"
  by (simp add: toy_frame_def NewVerifier_def toy_curve_def
      totalG1_of_def fminusfaG1_of_def claimedValueG1_of_def)

section \<open>The verification algorithm\<close>

text \<open>
  C1. For every verifier, commitment and opening proof, \<^verbatim>\<open>AssertProof\<close> computes
  \<open>claimedValueG1 = ScalarMulBase ClaimedValue\<close>, the difference
  \<open>Add (Neg claimedValueG1) Commitment\<close>, \<open>totalG1 = Add (ScalarMul QuotientPoly Point)\<close> of
  that difference, and \<open>negQuotientPoly = Neg QuotientPoly\<close>, through the injected curve
  capability only: the capability invocations it adds are exactly the seven listed, in
  this order, the last being the single \<^verbatim>\<open>PairingCheck\<close> on \<open>[totalG1, negQuotientPoly]\<close>
  against \<open>[SRS[0], SRS[1]]\<close>, whose answer decides the result.
\<close>

theorem AssertProof_pairing_check:
  "fst (AssertProof fr) = map_option pairing_check (pairing_outcome fr) \<and>
   pairing_outcome fr =
     PairingCheck (pairing (vk fr)) [totalG1_of fr, negQuotientPoly_of fr]
       [SRS_0 (SRS (vk fr)), SRS_1 (SRS (vk fr))] \<and>
   claimedValueG1_of fr = ScalarMulBase (curve (vk fr)) (ClaimedValueW (proof_arg fr)) \<and>
   fminusfaG1_of fr =
     Add (curve (vk fr)) (Neg (curve (vk fr)) (claimedValueG1_of fr)) (G1El (commitment fr)) \<and>
   totalG1_of fr =
     Add (curve (vk fr))
       (ScalarMul (curve (vk fr)) (QuotientPoly (proof_arg fr)) (Point (proof_arg fr)))
       (fminusfaG1_of fr) \<and>
   negQuotientPoly_of fr = Neg (curve (vk fr)) (QuotientPoly (proof_arg fr)) \<and>
   emitted (snd (AssertProof fr)) = emitted fr @
     [Call_ScalarMulBase (ClaimedValueW (proof_arg fr)),
      Call_Neg (claimedValueG1_of fr),
      Call_Add (Neg (curve (vk fr)) (claimedValueG1_of fr)) (G1El (commitment fr)),
      Call_Neg (QuotientPoly (proof_arg fr)),
      Call_ScalarMul (QuotientPoly (proof_arg fr)) (Point (proof_arg fr)),
      Call_Add (ScalarMul (curve (vk fr)) (QuotientPoly (proof_arg fr)) (Point (proof_arg fr)))
        (fminusfaG1_of fr),
      Call_PairingCheck [totalG1_of fr, negQuotientPoly_of fr]
        [SRS_0 (SRS (vk fr)), SRS_1 (SRS (vk fr))]]"
  by (simp add: AssertProof_unfold pairing_outcome_def totalG1_of_def negQuotientPoly_of_def
      fminusfaG1_of_def claimedValueG1_of_def)

text \<open>
  C2. \<^verbatim>\<open>AssertProof\<close> returns the nil error exactly when \<^verbatim>\<open>PairingCheck\<close> on the two
  pairs reports success; when \<^verbatim>\<open>PairingCheck\<close> reports an error \<open>e\<close>, the caller
  receives that error wrapped as \<open>pairing_check e\<close>, and no other error is ever returned.
\<close>

theorem AssertProof_success_iff:
  "(fst (AssertProof fr) = None) = (pairing_outcome fr = None) \<and>
   (\<forall>e. (fst (AssertProof fr) = Some (pairing_check e)) = (pairing_outcome fr = Some e)) \<and>
   (\<forall>x. fst (AssertProof fr) = Some x \<longrightarrow> (\<exists>e. x = pairing_check e \<and> pairing_outcome fr = Some e))"
  by (cases "pairing_outcome fr") (auto simp add: AssertProof_unfold pairing_outcome_def)

theorem AssertProof_success_iff_witness:
  "fst (AssertProof (toy_frame 5 25 7 5 2)) = Some (pairing_check ''pairing mismatch'') \<and>
   pairing_outcome (toy_frame 5 25 7 5 2) = Some ''pairing mismatch'' \<and>
   fst (AssertProof (toy_frame 5 25 7 4 2)) = None \<and>
   pairing_outcome (toy_frame 5 25 7 4 2) = None"
  using AssertProof_success_iff [of "toy_frame 5 25 7 5 2"]
    AssertProof_success_iff [of "toy_frame 5 25 7 4 2"]
  by (simp add: pairing_outcome_def toy_frame_def NewVerifier_def toy_curve_def toy_pairing_def
      totalG1_of_def negQuotientPoly_of_def fminusfaG1_of_def claimedValueG1_of_def)

text \<open>
  C7. \<^verbatim>\<open>AssertProof\<close> mutates nothing: after the call, whatever its result, the verifier
  (its SRS, its curve and its pairing capability) and the commitment and opening proof
  are what they were before; only the sequence of capability invocations has grown.
\<close>

theorem AssertProof_mutates_nothing:
  "vk (snd (AssertProof fr)) = vk fr \<and>
   SRS (vk (snd (AssertProof fr))) = SRS (vk fr) \<and>
   curve (vk (snd (AssertProof fr))) = curve (vk fr) \<and>
   pairing (vk (snd (AssertProof fr))) = pairing (vk fr) \<and>
   commitment (snd (AssertProof fr)) = commitment fr \<and>
   proof_arg (snd (AssertProof fr)) = proof_arg fr"
  by (simp add: AssertProof_unfold)

text \<open>
  C8. \<^verbatim>\<open>AssertProof\<close> is deterministic and order-independent: on a given verifier, a call
  with a given commitment and opening proof has the same outcome after any sequence of
  other calls as before it, and the same outcome when repeated at once.
\<close>

theorem AssertProof_deterministic:
  "fst (invoke (invoke_all fr calls) c p) = fst (invoke fr c p) \<and>
   fst (invoke (snd (invoke fr c p)) c p) = fst (invoke fr c p)"
  by (simp add: invoke_fst_vk [OF invoke_all_vk] invoke_fst_vk [OF invoke_vk])

section \<open>The conversion layer\<close>

text \<open>
  C3. For each of the three conversion functions and each of the two supported families,
  a native input whose dynamic type is not the one that family expects makes the function
  return the \<open>mismatching_types\<close> error together with the zero value of the witness: no
  part of the native value is read as the other family's type. For an opening proof the
  error names the proof's type when the proof mismatches, and the point's type otherwise.
\<close>

theorem conversion_type_mismatch:
  "(type_of cmt \<noteq> T_bn254_G1Affine \<longrightarrow>
      ValueOfCommitment enc sw_bn254_G1Affine cmt =
        (\<lparr>G1El = zero_G1El sw_bn254_G1Affine\<rparr>, Some (mismatching_types (type_of cmt)))) \<and>
   (type_of cmt \<noteq> T_bls12377_G1Affine \<longrightarrow>
      ValueOfCommitment enc sw_bls12377_G1Affine cmt =
        (\<lparr>G1El = zero_G1El sw_bls12377_G1Affine\<rparr>, Some (mismatching_types (type_of cmt)))) \<and>
   (type_of proof_v \<noteq> T_kzg_bn254_OpeningProof \<or> type_of point \<noteq> T_fr_bn254_Element \<longrightarrow>
      ValueOfOpeningProof enc sw_bn254_Scalar sw_bn254_G1Affine point proof_v =
        (\<lparr>QuotientPoly = zero_G1El sw_bn254_G1Affine, ClaimedValueW = zero_S sw_bn254_Scalar,
          Point = zero_S sw_bn254_Scalar\<rparr>,
         Some (mismatching_types
           (if type_of proof_v \<noteq> T_kzg_bn254_OpeningProof then type_of proof_v
            else type_of point)))) \<and>
   (type_of proof_v \<noteq> T_kzg_bls12377_OpeningProof \<or> type_of point \<noteq> T_fr_bls12377_Element \<longrightarrow>
      ValueOfOpeningProof enc sw_bls12377_Scalar sw_bls12377_G1Affine point proof_v =
        (\<lparr>QuotientPoly = zero_G1El sw_bls12377_G1Affine, ClaimedValueW = zero_S sw_bls12377_Scalar,
          Point = zero_S sw_bls12377_Scalar\<rparr>,
         Some (mismatching_types
           (if type_of proof_v \<noteq> T_kzg_bls12377_OpeningProof then type_of proof_v
            else type_of point)))) \<and>
   (type_of srs \<noteq> T_kzg_bn254_SRS_ptr \<longrightarrow>
      ValueOfSRS enc sw_bn254_G2Affine srs =
        Returned (\<lparr>SRS_0 = zero_G2El sw_bn254_G2Affine, SRS_1 = zero_G2El sw_bn254_G2Affine\<rparr>,
                  Some (mismatching_types (type_of srs)))) \<and>
   (type_of srs \<noteq> T_kzg_bls12377_SRS_ptr \<longrightarrow>
      ValueOfSRS enc sw_bls12377_G2Affine srs =
        Returned (\<lparr>SRS_0 = zero_G2El sw_bls12377_G2Affine, SRS_1 = zero_G2El sw_bls12377_G2Affine\<rparr>,
                  Some (mismatching_types (type_of srs))))"
proof -
  have a: "type_of cmt \<noteq> T_bn254_G1Affine \<longrightarrow>
      ValueOfCommitment enc sw_bn254_G1Affine cmt =
        (\<lparr>G1El = zero_G1El sw_bn254_G1Affine\<rparr>, Some (mismatching_types (type_of cmt)))"
    using ValueOfCommitment_bn254_mismatch [of cmt enc] by blast
  have b: "type_of cmt \<noteq> T_bls12377_G1Affine \<longrightarrow>
      ValueOfCommitment enc sw_bls12377_G1Affine cmt =
        (\<lparr>G1El = zero_G1El sw_bls12377_G1Affine\<rparr>, Some (mismatching_types (type_of cmt)))"
    using ValueOfCommitment_bls12377_mismatch [of cmt enc] by blast
  have c: "type_of proof_v \<noteq> T_kzg_bn254_OpeningProof \<or> type_of point \<noteq> T_fr_bn254_Element \<longrightarrow>
      ValueOfOpeningProof enc sw_bn254_Scalar sw_bn254_G1Affine point proof_v =
        (\<lparr>QuotientPoly = zero_G1El sw_bn254_G1Affine, ClaimedValueW = zero_S sw_bn254_Scalar,
          Point = zero_S sw_bn254_Scalar\<rparr>,
         Some (mismatching_types
           (if type_of proof_v \<noteq> T_kzg_bn254_OpeningProof then type_of proof_v
            else type_of point)))"
    using ValueOfOpeningProof_bn254_proof_mismatch [of proof_v enc point]
      ValueOfOpeningProof_bn254_point_mismatch [of proof_v point enc]
    by (cases "type_of proof_v = T_kzg_bn254_OpeningProof") simp_all
  have d: "type_of proof_v \<noteq> T_kzg_bls12377_OpeningProof \<or> type_of point \<noteq> T_fr_bls12377_Element \<longrightarrow>
      ValueOfOpeningProof enc sw_bls12377_Scalar sw_bls12377_G1Affine point proof_v =
        (\<lparr>QuotientPoly = zero_G1El sw_bls12377_G1Affine, ClaimedValueW = zero_S sw_bls12377_Scalar,
          Point = zero_S sw_bls12377_Scalar\<rparr>,
         Some (mismatching_types
           (if type_of proof_v \<noteq> T_kzg_bls12377_OpeningProof then type_of proof_v
            else type_of point)))"
    using ValueOfOpeningProof_bls12377_proof_mismatch [of proof_v enc point]
      ValueOfOpeningProof_bls12377_point_mismatch [of proof_v point enc]
    by (cases "type_of proof_v = T_kzg_bls12377_OpeningProof") simp_all
  have e: "type_of srs \<noteq> T_kzg_bn254_SRS_ptr \<longrightarrow>
      ValueOfSRS enc sw_bn254_G2Affine srs =
        Returned (\<lparr>SRS_0 = zero_G2El sw_bn254_G2Affine, SRS_1 = zero_G2El sw_bn254_G2Affine\<rparr>,
                  Some (mismatching_types (type_of srs)))"
    using ValueOfSRS_bn254_mismatch [of srs enc] by blast
  have f: "type_of srs \<noteq> T_kzg_bls12377_SRS_ptr \<longrightarrow>
      ValueOfSRS enc sw_bls12377_G2Affine srs =
        Returned (\<lparr>SRS_0 = zero_G2El sw_bls12377_G2Affine, SRS_1 = zero_G2El sw_bls12377_G2Affine\<rparr>,
                  Some (mismatching_types (type_of srs)))"
    using ValueOfSRS_bls12377_mismatch [of srs enc] by blast
  show ?thesis
    using a b c d e f by (intro conjI) assumption+
qed

theorem conversion_type_mismatch_witness:
  "type_of (bls12377_G1Affine \<lparr>X = 1, Y = 2\<rparr>) \<noteq> T_bn254_G1Affine \<and>
   ValueOfCommitment sample_encoders sw_bn254_G1Affine (bls12377_G1Affine \<lparr>X = 1, Y = 2\<rparr>) =
     (\<lparr>G1El = G1El_bn254 \<lparr>eX = [], eY = []\<rparr>\<rparr>, Some (mismatching_types T_bls12377_G1Affine)) \<and>
   type_of (bn254_G1Affine \<lparr>X = 1, Y = 2\<rparr>) \<noteq> T_bls12377_G1Affine \<and>
   ValueOfCommitment sample_encoders sw_bls12377_G1Affine (bn254_G1Affine \<lparr>X = 1, Y = 2\<rparr>) =
     (\<lparr>G1El = G1El_bls12377 \<lparr>vX = Variable_nil, vY = Variable_nil\<rparr>\<rparr>,
      Some (mismatching_types T_bn254_G1Affine)) \<and>
   type_of (fr_bls12377_Element 7) \<noteq> T_fr_bn254_Element \<and>
   ValueOfOpeningProof sample_encoders sw_bn254_Scalar sw_bn254_G1Affine
       (fr_bls12377_Element 7) (kzg_bn254_OpeningProof sample_proof) =
     (\<lparr>QuotientPoly = G1El_bn254 \<lparr>eX = [], eY = []\<rparr>, ClaimedValueW = S_bn254 [],
       Point = S_bn254 []\<rparr>, Some (mismatching_types T_fr_bls12377_Element)) \<and>
   type_of (kzg_bn254_OpeningProof sample_proof) \<noteq> T_kzg_bls12377_OpeningProof \<and>
   ValueOfOpeningProof sample_encoders sw_bls12377_Scalar sw_bls12377_G1Affine
       (fr_bls12377_Element 7) (kzg_bn254_OpeningProof sample_proof) =
     (\<lparr>QuotientPoly = G1El_bls12377 \<lparr>vX = Variable_nil, vY = Variable_nil\<rparr>,
       ClaimedValueW = S_bls12377 Variable_nil, Point = S_bls12377 Variable_nil\<rparr>,
      Some (mismatching_types T_kzg_bn254_OpeningProof)) \<and>
   type_of (kzg_bls12377_SRS_ptr (Some sample_srs)) \<noteq> T_kzg_bn254_SRS_ptr \<and>
   (\<exists>w. ValueOfSRS sample_encoders sw_bn254_G2Affine (kzg_bls12377_SRS_ptr (Some sample_srs)) =
      Returned (w, Some (mismatching_types T_kzg_bls12377_SRS_ptr))) \<and>
   type_of (kzg_bn254_SRS_ptr (Some sample_srs)) \<noteq> T_kzg_bls12377_SRS_ptr \<and>
   (\<exists>w. ValueOfSRS sample_encoders sw_bls12377_G2Affine (kzg_bn254_SRS_ptr (Some sample_srs)) =
      Returned (w, Some (mismatching_types T_kzg_bn254_SRS_ptr)))"
  using conversion_type_mismatch [of "bls12377_G1Affine \<lparr>X = 1, Y = 2\<rparr>" sample_encoders
      "kzg_bn254_OpeningProof sample_proof" "fr_bls12377_Element 7"
      "kzg_bls12377_SRS_ptr (Some sample_srs)"]
    conversion_type_mismatch [of "bn254_G1Affine \<lparr>X = 1, Y = 2\<rparr>" sample_encoders
      "kzg_bn254_OpeningProof sample_proof" "fr_bls12377_Element 7"
      "kzg_bn254_SRS_ptr (Some sample_srs)"]
  by simp

text \<open>
  C4. For every type parametrization other than the two supported families (for an
  opening proof: every pair of scalar and G1 type other than the two matching pairs),
  each conversion function returns the \<open>unknown_type_parametrization\<close> error, whatever
  native value is supplied.
\<close>

theorem conversion_unknown_family:
  "(tG1 \<noteq> sw_bn254_G1Affine \<and> tG1 \<noteq> sw_bls12377_G1Affine \<longrightarrow>
      ValueOfCommitment enc tG1 cmt =
        (\<lparr>G1El = zero_G1El tG1\<rparr>, Some unknown_type_parametrization)) \<and>
   ((tS, tG1') \<noteq> (sw_bn254_Scalar, sw_bn254_G1Affine) \<and>
    (tS, tG1') \<noteq> (sw_bls12377_Scalar, sw_bls12377_G1Affine) \<longrightarrow>
      ValueOfOpeningProof enc tS tG1' point proof_v =
        (\<lparr>QuotientPoly = zero_G1El tG1', ClaimedValueW = zero_S tS, Point = zero_S tS\<rparr>,
         Some unknown_type_parametrization)) \<and>
   (tG2 \<noteq> sw_bn254_G2Affine \<and> tG2 \<noteq> sw_bls12377_G2Affine \<longrightarrow>
      ValueOfSRS enc tG2 srs =
        Returned (\<lparr>SRS_0 = zero_G2El tG2, SRS_1 = zero_G2El tG2\<rparr>,
                  Some unknown_type_parametrization))"
proof (intro conjI impI)
  assume "tG1 \<noteq> sw_bn254_G1Affine \<and> tG1 \<noteq> sw_bls12377_G1Affine"
  then show "ValueOfCommitment enc tG1 cmt =
        (\<lparr>G1El = zero_G1El tG1\<rparr>, Some unknown_type_parametrization)"
    by (cases tG1) (simp_all add: ValueOfCommitment_other)
next
  assume "(tS, tG1') \<noteq> (sw_bn254_Scalar, sw_bn254_G1Affine) \<and>
    (tS, tG1') \<noteq> (sw_bls12377_Scalar, sw_bls12377_G1Affine)"
  then show "ValueOfOpeningProof enc tS tG1' point proof_v =
        (\<lparr>QuotientPoly = zero_G1El tG1', ClaimedValueW = zero_S tS, Point = zero_S tS\<rparr>,
         Some unknown_type_parametrization)"
    using ValueOfOpeningProof_unsupported [of tS tG1' enc point proof_v] by simp
next
  assume "tG2 \<noteq> sw_bn254_G2Affine \<and> tG2 \<noteq> sw_bls12377_G2Affine"
  then show "ValueOfSRS enc tG2 srs =
        Returned (\<lparr>SRS_0 = zero_G2El tG2, SRS_1 = zero_G2El tG2\<rparr>,
                  Some unknown_type_parametrization)"
    by (cases tG2) (simp_all add: ValueOfSRS_other)
qed

theorem conversion_unknown_family_witness:
  "other_G1ElementT 0 \<noteq> sw_bn254_G1Affine \<and> other_G1ElementT 0 \<noteq> sw_bls12377_G1Affine \<and>
   ValueOfCommitment sample_encoders (other_G1ElementT 0) (bn254_G1Affine \<lparr>X = 1, Y = 2\<rparr>) =
     (\<lparr>G1El = G1El_other 0\<rparr>, Some unknown_type_parametrization) \<and>
   (sw_bn254_Scalar, sw_bls12377_G1Affine) \<noteq> (sw_bn254_Scalar, sw_bn254_G1Affine) \<and>
   (sw_bn254_Scalar, sw_bls12377_G1Affine) \<noteq> (sw_bls12377_Scalar, sw_bls12377_G1Affine) \<and>
   ValueOfOpeningProof sample_encoders sw_bn254_Scalar sw_bls12377_G1Affine
       (fr_bn254_Element 7) (kzg_bn254_OpeningProof sample_proof) =
     (\<lparr>QuotientPoly = G1El_bls12377 \<lparr>vX = Variable_nil, vY = Variable_nil\<rparr>,
       ClaimedValueW = S_bn254 [], Point = S_bn254 []\<rparr>, Some unknown_type_parametrization) \<and>
   other_G2ElementT 0 \<noteq> sw_bn254_G2Affine \<and> other_G2ElementT 0 \<noteq> sw_bls12377_G2Affine \<and>
   ValueOfSRS sample_encoders (other_G2ElementT 0) (kzg_bn254_SRS_ptr None) =
     Returned (\<lparr>SRS_0 = G2El_other 0, SRS_1 = G2El_other 0\<rparr>, Some unknown_type_parametrization)"
  using conversion_unknown_family [of "other_G1ElementT 0" sample_encoders
      "bn254_G1Affine \<lparr>X = 1, Y = 2\<rparr>" sw_bn254_Scalar sw_bls12377_G1Affine
      "fr_bn254_Element 7" "kzg_bn254_OpeningProof sample_proof" "other_G2ElementT 0"
      "kzg_bn254_SRS_ptr None"]
  by simp

text \<open>
  C5. Whenever the conversion of an opening proof succeeds, either the family is bn254 and
  both scalars (claimed value and point) are encoded by \<^verbatim>\<open>sw_bn254.NewScalar\<close> (the
  emulated, limb-based encoding) and \<open>H\<close> by \<^verbatim>\<open>sw_bn254.NewG1Affine\<close>, or the family is
  bls12-377 and both scalars are the strings given by \<^verbatim>\<open>String()\<close> and \<open>H\<close> is encoded
  by \<^verbatim>\<open>sw_bls12377.NewG1Affine\<close>.
\<close>

theorem ValueOfOpeningProof_encoding:
  assumes "snd (ValueOfOpeningProof enc tS tG1 point proof_v) = None"
  shows "(\<exists>tProof tPoint.
            tS = sw_bn254_Scalar \<and> tG1 = sw_bn254_G1Affine \<and>
            proof_v = kzg_bn254_OpeningProof tProof \<and> point = fr_bn254_Element tPoint \<and>
            fst (ValueOfOpeningProof enc tS tG1 point proof_v) =
              \<lparr>QuotientPoly = G1El_bn254 (sw_bn254_NewG1Affine enc (H tProof)),
               ClaimedValueW = S_bn254 (sw_bn254_NewScalar enc (ClaimedValue tProof)),
               Point = S_bn254 (sw_bn254_NewScalar enc tPoint)\<rparr>) \<or>
         (\<exists>tProof tPoint.
            tS = sw_bls12377_Scalar \<and> tG1 = sw_bls12377_G1Affine \<and>
            proof_v = kzg_bls12377_OpeningProof tProof \<and> point = fr_bls12377_Element tPoint \<and>
            fst (ValueOfOpeningProof enc tS tG1 point proof_v) =
              \<lparr>QuotientPoly = G1El_bls12377 (sw_bls12377_NewG1Affine enc (H tProof)),
               ClaimedValueW =
                 S_bls12377 (Variable_string (fr_bls12377_String enc (ClaimedValue tProof))),
               Point = S_bls12377 (Variable_string (fr_bls12377_String enc tPoint))\<rparr>)"
  using ValueOfOpeningProof_success [OF assms]
  by (auto simp add: ValueOfOpeningProof_bn254_ok ValueOfOpeningProof_bls12377_ok)

theorem ValueOfOpeningProof_encoding_witness:
  "snd (ValueOfOpeningProof sample_encoders sw_bn254_Scalar sw_bn254_G1Affine
          (fr_bn254_Element 7) (kzg_bn254_OpeningProof sample_proof)) = None \<and>
   fst (ValueOfOpeningProof sample_encoders sw_bn254_Scalar sw_bn254_G1Affine
          (fr_bn254_Element 7) (kzg_bn254_OpeningProof sample_proof)) =
     \<lparr>QuotientPoly = G1El_bn254 \<lparr>eX = limbs4 3, eY = limbs4 4\<rparr>,
      ClaimedValueW = S_bn254 (limbs4 5), Point = S_bn254 (limbs4 7)\<rparr> \<and>
   snd (ValueOfOpeningProof sample_encoders sw_bls12377_Scalar sw_bls12377_G1Affine
          (fr_bls12377_Element 7) (kzg_bls12377_OpeningProof sample_proof)) = None \<and>
   fst (ValueOfOpeningProof sample_encoders sw_bls12377_Scalar sw_bls12377_G1Affine
          (fr_bls12377_Element 7) (kzg_bls12377_OpeningProof sample_proof)) =
     \<lparr>QuotientPoly = G1El_bls12377 \<lparr>vX = Variable_element 3, vY = Variable_element 4\<rparr>,
      ClaimedValueW = S_bls12377 (Variable_string (decimal 5)),
      Point = S_bls12377 (Variable_string (decimal 7))\<rparr>"
proof -
  have h1: "snd (ValueOfOpeningProof sample_encoders sw_bn254_Scalar sw_bn254_G1Affine
          (fr_bn254_Element 7) (kzg_bn254_OpeningProof sample_proof)) = None"
    by (simp add: ValueOfOpeningProof_def)
  have h2: "snd (ValueOfOpeningProof sample_encoders sw_bls12377_Scalar sw_bls12377_G1Affine
          (fr_bls12377_Element 7) (kzg_bls12377_OpeningProof sample_proof)) = None"
    by (simp add: ValueOfOpeningProof_def)
  show ?thesis
    using h1 h2 ValueOfOpeningProof_encoding [OF h1] ValueOfOpeningProof_encoding [OF h2]
    by (simp add: sample_encoders_def sample_proof_def sample_String_small
        fr_bls12377_modulus_def)
qed

text \<open>
  C6. Whenever \<^verbatim>\<open>ValueOfSRS\<close> succeeds, cell 0 of the witness is the encoding of
  \<^verbatim>\<open>Vk.G2[0]\<close> and cell 1 the encoding of \<^verbatim>\<open>Vk.G2[1]\<close> of the native setup, with the
  encoder of the selected family, for both families.
\<close>

theorem ValueOfSRS_order:
  assumes "ValueOfSRS enc tG2 srs = Returned (w, None)"
  shows "(\<exists>tSrs. tG2 = sw_bn254_G2Affine \<and> srs = kzg_bn254_SRS_ptr (Some tSrs) \<and>
            SRS_0 w = G2El_bn254 (sw_bn254_NewG2Affine enc (G2_0 (Vk tSrs))) \<and>
            SRS_1 w = G2El_bn254 (sw_bn254_NewG2Affine enc (G2_1 (Vk tSrs)))) \<or>
         (\<exists>tSrs. tG2 = sw_bls12377_G2Affine \<and> srs = kzg_bls12377_SRS_ptr (Some tSrs) \<and>
            SRS_0 w = G2El_bls12377 (sw_bls12377_NewG2Affine enc (G2_0 (Vk tSrs))) \<and>
            SRS_1 w = G2El_bls12377 (sw_bls12377_NewG2Affine enc (G2_1 (Vk tSrs))))"
  using ValueOfSRS_success [OF assms] assms
  by (auto simp add: ValueOfSRS_bn254_ok ValueOfSRS_bls12377_ok)

theorem ValueOfSRS_order_witness:
  "(\<exists>w. ValueOfSRS sample_encoders sw_bn254_G2Affine (kzg_bn254_SRS_ptr (Some sample_srs)) =
        Returned (w, None) \<and>
      SRS_0 w = G2El_bn254 \<lparr>eX2 = \<lparr>eA0 = limbs4 10, eA1 = limbs4 11\<rparr>,
                             eY2 = \<lparr>eA0 = limbs4 12, eA1 = limbs4 13\<rparr>\<rparr> \<and>
      SRS_1 w = G2El_bn254 \<lparr>eX2 = \<lparr>eA0 = limbs4 20, eA1 = limbs4 21\<rparr>,
                             eY2 = \<lparr>eA0 = limbs4 22, eA1 = limbs4 23\<rparr>\<rparr>) \<and>
   (\<exists>w. ValueOfSRS sample_encoders sw_bls12377_G2Affine (kzg_bls12377_SRS_ptr (Some sample_srs)) =
        Returned (w, None) \<and>
      SRS_0 w = G2El_bls12377
        \<lparr>vX2 = \<lparr>vA0 = Variable_element 10, vA1 = Variable_element 11\<rparr>,
         vY2 = \<lparr>vA0 = Variable_element 12, vA1 = Variable_element 13\<rparr>\<rparr> \<and>
      SRS_1 w = G2El_bls12377
        \<lparr>vX2 = \<lparr>vA0 = Variable_element 20, vA1 = Variable_element 21\<rparr>,
         vY2 = \<lparr>vA0 = Variable_element 22, vA1 = Variable_element 23\<rparr>\<rparr>)"
proof -
  obtain w1 where h1: "ValueOfSRS sample_encoders sw_bn254_G2Affine
      (kzg_bn254_SRS_ptr (Some sample_srs)) = Returned (w1, None)"
    by (simp add: ValueOfSRS_def)
  obtain w2 where h2: "ValueOfSRS sample_encoders sw_bls12377_G2Affine
      (kzg_bls12377_SRS_ptr (Some sample_srs)) = Returned (w2, None)"
    by (simp add: ValueOfSRS_def)
  show ?thesis
    using h1 h2 ValueOfSRS_order [OF h1] ValueOfSRS_order [OF h2]
    by (simp add: sample_encoders_def sample_srs_def)
qed

text \<open>
  C9. Conversion is deterministic: a conversion call leaves the memory it shares with its
  caller as it found it, so the same call (same function, same type parameters, same
  native values) gives the same result, the same witness, the same error or the same
  panic, when it is repeated at once and when any sequence of other conversion calls has
  run in between.
\<close>

theorem conversion_repeatable:
  "fst (convert enc c (convert_all enc calls h)) = fst (convert enc c h) \<and>
   fst (convert enc c (snd (convert enc c h))) = fst (convert enc c h) \<and>
   snd (convert enc c h) = h"
  by (simp add: convert_all_heap convert_heap)

theorem conversion_repeatable_witness:
  "fst (convert sample_encoders (Call_ValueOfSRS sw_bn254_G2Affine (kzg_bn254_SRS_at 0))
          (convert_all sample_encoders
             [Call_ValueOfCommitment sw_bn254_G1Affine (Value (bn254_G1Affine \<lparr>X = 1, Y = 2\<rparr>)),
              Call_ValueOfSRS sw_bls12377_G2Affine (kzg_bn254_SRS_at 0),
              Call_ValueOfSRS sw_bn254_G2Affine (Value (kzg_bn254_SRS_ptr None))]
             (\<lambda>a. sample_srs))) =
     SRS_result (Returned
       (\<lparr>SRS_0 = G2El_bn254 \<lparr>eX2 = \<lparr>eA0 = limbs4 10, eA1 = limbs4 11\<rparr>,
                               eY2 = \<lparr>eA0 = limbs4 12, eA1 = limbs4 13\<rparr>\<rparr>,
         SRS_1 = G2El_bn254 \<lparr>eX2 = \<lparr>eA0 = limbs4 20, eA1 = limbs4 21\<rparr>,
                               eY2 = \<lparr>eA0 = limbs4 22, eA1 = limbs4 23\<rparr>\<rparr>\<rparr>, None)) \<and>
   snd (convert sample_encoders (Call_ValueOfSRS sw_bn254_G2Affine (kzg_bn254_SRS_at 0))
          (\<lambda>a. sample_srs)) = (\<lambda>a. sample_srs)"
  using conversion_repeatable
    [of sample_encoders "Call_ValueOfSRS sw_bn254_G2Affine (kzg_bn254_SRS_at 0)"
      "[Call_ValueOfCommitment sw_bn254_G1Affine (Value (bn254_G1Affine \<lparr>X = 1, Y = 2\<rparr>)),
        Call_ValueOfSRS sw_bls12377_G2Affine (kzg_bn254_SRS_at 0),
        Call_ValueOfSRS sw_bn254_G2Affine (Value (kzg_bn254_SRS_ptr None))]"
      "\<lambda>a. sample_srs"]
  by (simp add: ValueOfSRS_heap_eq ValueOfSRS_bn254_ok sample_encoders_def sample_srs_def)

text \<open>
  C10. Whenever a conversion function returns an error, the witness returned with it is
  the zero value of the witness type. In \<^verbatim>\<open>ValueOfOpeningProof\<close> the proof's type is
  checked first: with a mismatching proof the result does not depend on the point at all,
  and the error names the proof's type.
\<close>

theorem conversion_failure_zero_value:
  "(snd (ValueOfCommitment enc tG1 cmt) \<noteq> None \<longrightarrow>
      fst (ValueOfCommitment enc tG1 cmt) = \<lparr>G1El = zero_G1El tG1\<rparr>) \<and>
   (snd (ValueOfOpeningProof enc tS tG1' point proof_v) \<noteq> None \<longrightarrow>
      fst (ValueOfOpeningProof enc tS tG1' point proof_v) =
        \<lparr>QuotientPoly = zero_G1El tG1', ClaimedValueW = zero_S tS, Point = zero_S tS\<rparr>) \<and>
   (\<forall>w e. ValueOfSRS enc tG2 srs = Returned (w, Some e) \<longrightarrow>
      w = \<lparr>SRS_0 = zero_G2El tG2, SRS_1 = zero_G2El tG2\<rparr>) \<and>
   (type_of proofA \<noteq> T_kzg_bn254_OpeningProof \<longrightarrow>
      (\<forall>pointA pointA'.
         ValueOfOpeningProof enc sw_bn254_Scalar sw_bn254_G1Affine pointA proofA =
           ValueOfOpeningProof enc sw_bn254_Scalar sw_bn254_G1Affine pointA' proofA \<and>
         snd (ValueOfOpeningProof enc sw_bn254_Scalar sw_bn254_G1Affine pointA proofA) =
           Some (mismatching_types (type_of proofA)))) \<and>
   (type_of proofB \<noteq> T_kzg_bls12377_OpeningProof \<longrightarrow>
      (\<forall>pointB pointB'.
         ValueOfOpeningProof enc sw_bls12377_Scalar sw_bls12377_G1Affine pointB proofB =
           ValueOfOpeningProof enc sw_bls12377_Scalar sw_bls12377_G1Affine pointB' proofB \<and>
         snd (ValueOfOpeningProof enc sw_bls12377_Scalar sw_bls12377_G1Affine pointB proofB) =
           Some (mismatching_types (type_of proofB))))"
  using ValueOfCommitment_failure_zero [of enc tG1 cmt]
    ValueOfOpeningProof_failure_zero [of enc tS tG1' point proof_v]
    ValueOfSRS_failure_zero [of enc tG2 srs]
  by (simp add: ValueOfOpeningProof_bn254_proof_mismatch
      ValueOfOpeningProof_bls12377_proof_mismatch)

theorem conversion_failure_zero_value_witness:
  "snd (ValueOfCommitment sample_encoders sw_bn254_G1Affine
          (bls12377_G1Affine \<lparr>X = 1, Y = 2\<rparr>)) \<noteq> None \<and>
   fst (ValueOfCommitment sample_encoders sw_bn254_G1Affine
          (bls12377_G1Affine \<lparr>X = 1, Y = 2\<rparr>)) = \<lparr>G1El = G1El_bn254 \<lparr>eX = [], eY = []\<rparr>\<rparr> \<and>
   snd (ValueOfOpeningProof sample_encoders sw_bn254_Scalar sw_bn254_G1Affine
          (fr_bn254_Element 7) (kzg_bls12377_OpeningProof sample_proof)) \<noteq> None \<and>
   fst (ValueOfOpeningProof sample_encoders sw_bn254_Scalar sw_bn254_G1Affine
          (fr_bn254_Element 7) (kzg_bls12377_OpeningProof sample_proof)) =
     \<lparr>QuotientPoly = G1El_bn254 \<lparr>eX = [], eY = []\<rparr>, ClaimedValueW = S_bn254 [],
      Point = S_bn254 []\<rparr> \<and>
   ValueOfSRS sample_encoders sw_bn254_G2Affine any_nil =
     Returned (\<lparr>SRS_0 = zero_G2El sw_bn254_G2Affine, SRS_1 = zero_G2El sw_bn254_G2Affine\<rparr>,
               Some (mismatching_types T_nil)) \<and>
   type_of (kzg_bls12377_OpeningProof sample_proof) \<noteq> T_kzg_bn254_OpeningProof \<and>
   ValueOfOpeningProof sample_encoders sw_bn254_Scalar sw_bn254_G1Affine
       (fr_bn254_Element 7) (kzg_bls12377_OpeningProof sample_proof) =
     ValueOfOpeningProof sample_encoders sw_bn254_Scalar sw_bn254_G1Affine
       any_nil (kzg_bls12377_OpeningProof sample_proof) \<and>
   snd (ValueOfOpeningProof sample_encoders sw_bn254_Scalar sw_bn254_G1Affine
          (fr_bn254_Element 7) (kzg_bls12377_OpeningProof sample_proof)) =
     Some (mismatching_types T_kzg_bls12377_OpeningProof) \<and>
   type_of (kzg_bn254_OpeningProof sample_proof) \<noteq> T_kzg_bls12377_OpeningProof \<and>
   snd (ValueOfOpeningProof sample_encoders sw_bls12377_Scalar sw_bls12377_G1Affine
          (fr_bls12377_Element 7) (kzg_bn254_OpeningProof sample_proof)) =
     Some (mismatching_types T_kzg_bn254_OpeningProof)"
proof -
  have h1: "snd (ValueOfCommitment sample_encoders sw_bn254_G1Affine
          (bls12377_G1Affine \<lparr>X = 1, Y = 2\<rparr>)) \<noteq> None"
    by (simp add: ValueOfCommitment_def)
  have h2: "snd (ValueOfOpeningProof sample_encoders sw_bn254_Scalar sw_bn254_G1Affine
          (fr_bn254_Element 7) (kzg_bls12377_OpeningProof sample_proof)) \<noteq> None"
    by (simp add: ValueOfOpeningProof_def)
  have h3: "ValueOfSRS sample_encoders sw_bn254_G2Affine any_nil =
     Returned (\<lparr>SRS_0 = zero_G2El sw_bn254_G2Affine, SRS_1 = zero_G2El sw_bn254_G2Affine\<rparr>,
               Some (mismatching_types T_nil))"
    by (simp add: ValueOfSRS_def)
  show ?thesis
    using h1 h2 h3
      conversion_failure_zero_value [of sample_encoders sw_bn254_G1Affine
        "bls12377_G1Affine \<lparr>X = 1, Y = 2\<rparr>" sw_bn254_Scalar sw_bn254_G1Affine
        "fr_bn254_Element 7" "kzg_bls12377_OpeningProof sample_proof" sw_bn254_G2Affine any_nil
        "kzg_bls12377_OpeningProof sample_proof" "kzg_bn254_OpeningProof sample_proof"]
    by simp
qed

end
